theory Spec2Isabelle
  imports Complex_Main "HOL-Library.Multiset"
begin

section \<open>City suggestions: the matching and scoring engine of cityRepository.go\<close>

text \<open>
  The development embeds \<^verbatim>\<open>internal/app/challenge/cityRepository.go\<close>: the record
  accessors, the three-field substring match, the extraction of one alternate name, the
  score and the stable descending sort. A Go \<^verbatim>\<open>string\<close> is a sequence of bytes and is
  modelled by \<^typ>\<open>string\<close> (a list of 8-bit characters); a \<^verbatim>\<open>rune\<close> is a code point,
  modelled by \<^typ>\<open>nat\<close>; a slice index is an \<^typ>\<open>int\<close>; a run-time panic is a value of
  the type \<open>panic\<close>, and a function that can panic returns \<open>panic + 'a\<close>.
\<close>

subsection \<open>Floating point\<close>

text \<open>
  A \<^verbatim>\<open>float64\<close> is a finite number, an infinity or NaN. A finite value is modelled by
  the real number it stands for, and an operation on finite values returns the exact
  result when it lies in the range of the type and the infinity of its sign when it
  does not. So the special values, the way the operations produce and propagate them,
  and overflow are inside the model; the rounding of a result within the range to 53
  bits (to 24 bits for a \<^verbatim>\<open>float32\<close>) and the sign of zero are outside it. Zero stands
  for \<open>+0\<close>: the only zero divisor the program can form is the \<^verbatim>\<open>float64\<close> of a rune
  count.
\<close>

datatype float64 = Finite real | PosInf | NegInf | NaN

type_synonym float32 = float64

text \<open>The least magnitude that rounds to an infinity: the largest finite value and half a
  unit in its last place; \<open>2\<^sup>1\<^sup>0\<^sup>2\<^sup>4 - 2\<^sup>9\<^sup>7\<^sup>1\<close> is the largest \<^verbatim>\<open>float64\<close> and
  \<open>2\<^sup>1\<^sup>2\<^sup>8 - 2\<^sup>1\<^sup>0\<^sup>4\<close> the largest \<^verbatim>\<open>float32\<close>.\<close>

definition float64Overflow :: real where
  "float64Overflow = 2 ^ 1024 - 2 ^ 970"

definition float32Overflow :: real where
  "float32Overflow = 2 ^ 128 - 2 ^ 103"

text \<open>The exact result \<open>r\<close> of an operation, as a value of a type that overflows at
  \<open>limit\<close>.\<close>

definition withinRange :: "real \<Rightarrow> real \<Rightarrow> float64" where
  "withinRange limit r =
     (if limit \<le> r then PosInf else if r \<le> - limit then NegInf else Finite r)"

instantiation float64 :: "{zero,one,minus,times,inverse,abs}"
begin

definition zero_float64 :: float64 where
  "zero_float64 = Finite 0"

definition one_float64 :: float64 where
  "one_float64 = Finite 1"

fun minus_float64 :: "float64 \<Rightarrow> float64 \<Rightarrow> float64" where
  "minus_float64 NaN y = NaN"
| "minus_float64 x NaN = NaN"
| "minus_float64 (Finite a) (Finite b) = withinRange float64Overflow (a - b)"
| "minus_float64 PosInf PosInf = NaN"
| "minus_float64 NegInf NegInf = NaN"
| "minus_float64 PosInf y = PosInf"
| "minus_float64 NegInf y = NegInf"
| "minus_float64 x PosInf = NegInf"
| "minus_float64 x NegInf = PosInf"

fun times_float64 :: "float64 \<Rightarrow> float64 \<Rightarrow> float64" where
  "times_float64 NaN y = NaN"
| "times_float64 x NaN = NaN"
| "times_float64 (Finite a) (Finite b) = withinRange float64Overflow (a * b)"
| "times_float64 PosInf (Finite b) = (if b = 0 then NaN else if 0 < b then PosInf else NegInf)"
| "times_float64 NegInf (Finite b) = (if b = 0 then NaN else if 0 < b then NegInf else PosInf)"
| "times_float64 (Finite a) PosInf = (if a = 0 then NaN else if 0 < a then PosInf else NegInf)"
| "times_float64 (Finite a) NegInf = (if a = 0 then NaN else if 0 < a then NegInf else PosInf)"
| "times_float64 PosInf PosInf = PosInf"
| "times_float64 NegInf NegInf = PosInf"
| "times_float64 PosInf NegInf = NegInf"
| "times_float64 NegInf PosInf = NegInf"

fun divide_float64 :: "float64 \<Rightarrow> float64 \<Rightarrow> float64" where
  "divide_float64 NaN y = NaN"
| "divide_float64 x NaN = NaN"
| "divide_float64 (Finite a) (Finite b) =
     (if b = 0 then (if a = 0 then NaN else if 0 < a then PosInf else NegInf)
      else withinRange float64Overflow (a / b))"
| "divide_float64 (Finite a) y = Finite 0"
| "divide_float64 PosInf (Finite b) = (if 0 \<le> b then PosInf else NegInf)"
| "divide_float64 NegInf (Finite b) = (if 0 \<le> b then NegInf else PosInf)"
| "divide_float64 x y = NaN"

definition inverse_float64 :: "float64 \<Rightarrow> float64" where
  "inverse_float64 x = divide (Finite 1) x"

fun abs_float64 :: "float64 \<Rightarrow> float64" where
  "abs_float64 (Finite a) = Finite \<bar>a\<bar>"
| "abs_float64 PosInf = PosInf"
| "abs_float64 NegInf = PosInf"
| "abs_float64 NaN = NaN"

instance ..

end

text \<open>The comparison \<^verbatim>\<open>x > y\<close>: false as soon as one side is NaN.\<close>

fun f64_gt :: "float64 \<Rightarrow> float64 \<Rightarrow> bool" where
  "f64_gt NaN y = False"
| "f64_gt x NaN = False"
| "f64_gt (Finite a) (Finite b) = (b < a)"
| "f64_gt PosInf y = (y \<noteq> PosInf)"
| "f64_gt x PosInf = False"
| "f64_gt x NegInf = (x \<noteq> NegInf)"
| "f64_gt NegInf y = False"

text \<open>The comparison \<^verbatim>\<open>x >= y\<close>, in which a list sorted in descending order is stated.\<close>

definition f64_ge :: "float64 \<Rightarrow> float64 \<Rightarrow> bool" where
  "f64_ge x y = (f64_gt x y \<or> (x = y \<and> x \<noteq> NaN))"

text \<open>The conversion \<^verbatim>\<open>float64(n)\<close> of a count, which is far inside the range, and the
  conversion \<^verbatim>\<open>float32(x)\<close>, which overflows to an infinity.\<close>

definition float64_of_int :: "int \<Rightarrow> float64" where
  "float64_of_int n = Finite (real_of_int n)"

fun to_float32 :: "float64 \<Rightarrow> float32" where
  "to_float32 (Finite r) = withinRange float32Overflow r"
| "to_float32 x = x"

subsection \<open>The Go library and run time\<close>

text \<open>
  Three things the program's behaviour depends on are not written in the repository nor
  fixed by the language, and are parameters of the model: the case table of package
  \<^verbatim>\<open>unicode\<close> for the code points above ASCII, the elements a rune slice made by
  \<^verbatim>\<open>[]rune(s)\<close> holds between its length and its capacity (the gc run time rounds the
  allocation up and clears the rest), and what \<^verbatim>\<open>strconv.ParseFloat\<close> makes of a
  string with an underscore or a hexadecimal prefix, which changed between Go releases.
\<close>

datatype panic = IndexOutOfRange | SliceBoundsOutOfRange

datatype numError = ErrSyntax | ErrRange

record golib =
  unicodeLowerTable :: "nat \<Rightarrow> nat"
  runeSpare :: "nat \<Rightarrow> nat list"
  parseFloatOther :: "string \<Rightarrow> float64 \<times> numError option"

subsubsection \<open>UTF-8\<close>

definition RuneError :: nat where
  "RuneError = 0xFFFD"

definition byte :: "char \<Rightarrow> nat" where
  "byte c = of_char c"

text \<open>\<^verbatim>\<open>utf8.DecodeRuneInString\<close>: the first code point and its width; an invalid or short
  encoding is \<open>RuneError\<close> of width 1. The bounds on the second byte are the accept ranges
  of package \<^verbatim>\<open>utf8\<close>.\<close>

definition acceptLo :: "nat \<Rightarrow> nat" where
  "acceptLo b0 = (if b0 = 0xE0 then 0xA0 else if b0 = 0xF0 then 0x90 else 0x80)"

definition acceptHi :: "nat \<Rightarrow> nat" where
  "acceptHi b0 = (if b0 = 0xED then 0x9F else if b0 = 0xF4 then 0x8F else 0xBF)"

definition isCont :: "nat \<Rightarrow> bool" where
  "isCont b = (0x80 \<le> b \<and> b \<le> 0xBF)"

fun DecodeRuneInString :: "string \<Rightarrow> nat \<times> nat" where
  "DecodeRuneInString [] = (RuneError, 0)"
| "DecodeRuneInString (c0 # s) =
     (let b0 = byte c0 in
      if b0 < 0x80 then (b0, 1)
      else if b0 < 0xC2 \<or> 0xF4 < b0 then (RuneError, 1)
      else (case s of
          [] \<Rightarrow> (RuneError, 1)
        | c1 # s1 \<Rightarrow>
            let b1 = byte c1 in
            if b1 < acceptLo b0 \<or> acceptHi b0 < b1 then (RuneError, 1)
            else if b0 < 0xE0 then ((b0 mod 0x20) * 0x40 + b1 mod 0x40, 2)
            else (case s1 of
                [] \<Rightarrow> (RuneError, 1)
              | c2 # s2 \<Rightarrow>
                  let b2 = byte c2 in
                  if \<not> isCont b2 then (RuneError, 1)
                  else if b0 < 0xF0 then
                    ((b0 mod 0x10) * 0x1000 + (b1 mod 0x40) * 0x40 + b2 mod 0x40, 3)
                  else (case s2 of
                      [] \<Rightarrow> (RuneError, 1)
                    | c3 # s3 \<Rightarrow>
                        let b3 = byte c3 in
                        if \<not> isCont b3 then (RuneError, 1)
                        else ((b0 mod 0x08) * 0x40000 + (b1 mod 0x40) * 0x1000
                              + (b2 mod 0x40) * 0x40 + b3 mod 0x40, 4)))))"

text \<open>The conversion \<^verbatim>\<open>[]rune(s)\<close>, which is also how \<^verbatim>\<open>range\<close> walks a string.\<close>

function runes :: "string \<Rightarrow> nat list" where
  "runes [] = []"
| "runes (c # s) =
     fst (DecodeRuneInString (c # s)) # runes (drop (snd (DecodeRuneInString (c # s)) - 1) s)"
  by pat_completeness auto
termination
  by (relation "measure length") auto

definition RuneCountInString :: "string \<Rightarrow> nat" where
  "RuneCountInString s = length (runes s)"

text \<open>The encoding of one rune (\<^verbatim>\<open>utf8.AppendRune\<close>): a surrogate or a value above
  \<open>0x10FFFF\<close> is written as \<open>RuneError\<close>.\<close>

definition encodeRune :: "nat \<Rightarrow> string" where
  "encodeRune r =
     (if r \<le> 0x7F then [char_of r]
      else if r \<le> 0x7FF then [char_of (0xC0 + r div 0x40), char_of (0x80 + r mod 0x40)]
      else if 0x10FFFF < r \<or> (0xD800 \<le> r \<and> r \<le> 0xDFFF) then
        [char_of (0xEF::nat), char_of (0xBF::nat), char_of (0xBD::nat)]
      else if r \<le> 0xFFFF then
        [char_of (0xE0 + r div 0x1000), char_of (0x80 + (r div 0x40) mod 0x40),
         char_of (0x80 + r mod 0x40)]
      else
        [char_of (0xF0 + r div 0x40000), char_of (0x80 + (r div 0x1000) mod 0x40),
         char_of (0x80 + (r div 0x40) mod 0x40), char_of (0x80 + r mod 0x40)])"

text \<open>The conversion \<^verbatim>\<open>string(rs)\<close> of a rune slice.\<close>

definition string_of_runes :: "nat list \<Rightarrow> string" where
  "string_of_runes rs = concat (map encodeRune rs)"

text \<open>A code point that UTF-8 encodes: a Unicode scalar value.\<close>

definition validRune :: "nat \<Rightarrow> bool" where
  "validRune r = (r < 0xD800 \<or> (0xDFFF < r \<and> r \<le> 0x10FFFF))"

subsubsection \<open>Package strings\<close>

definition HasPrefix :: "string \<Rightarrow> string \<Rightarrow> bool" where
  "HasPrefix s p = (take (length p) s = p)"

text \<open>\<^verbatim>\<open>strings.Index\<close>: the byte offset of the first occurrence, or \<open>-1\<close>.\<close>

fun Index :: "string \<Rightarrow> string \<Rightarrow> int" where
  "Index [] sub = (if sub = [] then 0 else - 1)"
| "Index (c # s) sub =
     (if HasPrefix (c # s) sub then 0
      else (let i = Index s sub in if i < 0 then - 1 else i + 1))"

definition Contains :: "string \<Rightarrow> string \<Rightarrow> bool" where
  "Contains s sub = (0 \<le> Index s sub)"

text \<open>\<^verbatim>\<open>unicode.ToLower\<close>: ASCII is handled in the function itself, the rest by the table.\<close>

definition unicode_ToLower :: "golib \<Rightarrow> nat \<Rightarrow> nat" where
  "unicode_ToLower L r =
     (if r \<le> 0x7F then (if 0x41 \<le> r \<and> r \<le> 0x5A then r + 0x20 else r)
      else unicodeLowerTable L r)"

text \<open>\<^verbatim>\<open>strings.Map\<close> with a mapping that never returns a negative rune.\<close>

definition Map :: "(nat \<Rightarrow> nat) \<Rightarrow> string \<Rightarrow> string" where
  "Map f s = concat (map (\<lambda>c. encodeRune (f c)) (runes s))"

definition lowerByte :: "char \<Rightarrow> char" where
  "lowerByte c = (if 0x41 \<le> byte c \<and> byte c \<le> 0x5A then char_of (byte c + 0x20) else c)"

definition isASCII :: "string \<Rightarrow> bool" where
  "isASCII s = list_all (\<lambda>c. byte c < 0x80) s"

text \<open>\<^verbatim>\<open>strings.ToLower\<close>: bytewise on an ASCII string, else \<^verbatim>\<open>Map(unicode.ToLower, s)\<close>.\<close>

definition ToLower :: "golib \<Rightarrow> string \<Rightarrow> string" where
  "ToLower L s = (if isASCII s then map lowerByte s else Map (unicode_ToLower L) s)"

subsubsection \<open>strconv.ParseFloat\<close>

text \<open>
  \<^verbatim>\<open>strconv.ParseFloat(s, 64)\<close> returns a value and an error. The special values are
  \<^verbatim>\<open>inf\<close> and \<^verbatim>\<open>infinity\<close>, with an optional sign, and \<^verbatim>\<open>nan\<close>, in any letter case.
  A decimal number is an optional sign, digits with at most one point and at least one
  digit, and an optional exponent (\<^verbatim>\<open>e\<close>, an optional sign, at least one digit); the whole
  string must be consumed. A syntax error comes with the value 0; a number that rounds
  beyond the largest \<^verbatim>\<open>float64\<close> comes with an infinity and \<^verbatim>\<open>ErrRange\<close>. The library
  stops accumulating the exponent at 10000, which \<open>expVal\<close> repeats. What the parameter
  returns for a string with an underscore or a hexadecimal prefix is read in the same
  way: the value 0 with a syntax error, and an infinity with a range error for a
  magnitude that no \<^verbatim>\<open>float64\<close> holds.
\<close>

definition isDigit :: "char \<Rightarrow> bool" where
  "isDigit c = (0x30 \<le> byte c \<and> byte c \<le> 0x39)"

definition digitsVal :: "string \<Rightarrow> nat" where
  "digitsVal ds = foldl (\<lambda>n c. n * 10 + (byte c - 0x30)) 0 ds"

definition expVal :: "string \<Rightarrow> int" where
  "expVal ds = foldl (\<lambda>e c. if e < 10000 then e * 10 + (int (byte c) - 0x30) else e) 0 ds"

definition special :: "string \<Rightarrow> float64 option" where
  "special s =
     (let t = map lowerByte s in
      if t = ''inf'' \<or> t = ''+inf'' \<or> t = ''infinity'' \<or> t = ''+infinity'' then Some PosInf
      else if t = ''-inf'' \<or> t = ''-infinity'' then Some NegInf
      else if t = ''nan'' then Some NaN
      else None)"

definition optSign :: "string \<Rightarrow> bool \<times> string" where
  "optSign s =
     (case s of
        [] \<Rightarrow> (False, [])
      | c # t \<Rightarrow>
          if c = CHR ''+'' then (False, t) else if c = CHR ''-'' then (True, t) else (False, s))"

text \<open>The sign, the digits of the mantissa as a number and the decimal exponent.\<close>

definition readFloat :: "string \<Rightarrow> (bool \<times> nat \<times> int) option" where
  "readFloat s =
     (let s1 = snd (optSign s);
          ip = takeWhile isDigit s1;
          s2 = dropWhile isDigit s1;
          dot = (s2 \<noteq> [] \<and> hd s2 = CHR ''.'');
          fp = (if dot then takeWhile isDigit (tl s2) else []);
          s3 = (if dot then dropWhile isDigit (tl s2) else s2)
      in if ip = [] \<and> fp = [] then None
         else (case s3 of
             [] \<Rightarrow> Some (fst (optSign s), digitsVal (ip @ fp), - int (length fp))
           | c # s4 \<Rightarrow>
               if c = CHR ''e'' \<or> c = CHR ''E'' then
                 (let s5 = snd (optSign s4); ed = takeWhile isDigit s5 in
                  if ed = [] \<or> dropWhile isDigit s5 \<noteq> [] then None
                  else Some (fst (optSign s), digitsVal (ip @ fp),
                         (if fst (optSign s4) then - expVal ed else expVal ed)
                           - int (length fp)))
               else None))"

definition decimalValue :: "nat \<Rightarrow> int \<Rightarrow> real" where
  "decimalValue m e = (if 0 \<le> e then real m * 10 ^ nat e else real m / 10 ^ nat (- e))"

definition isOther :: "string \<Rightarrow> bool" where
  "isOther s = list_ex (\<lambda>c. c = CHR ''_'' \<or> c = CHR ''x'' \<or> c = CHR ''X'') s"

definition ParseFloat :: "golib \<Rightarrow> string \<Rightarrow> float64 \<times> numError option" where
  "ParseFloat L s =
     (case special s of
        Some v \<Rightarrow> (v, None)
      | None \<Rightarrow>
          if isOther s then
            (if snd (parseFloatOther L s) = Some ErrSyntax then (0, Some ErrSyntax)
             else (case fst (parseFloatOther L s) of
                 Finite r \<Rightarrow>
                   if float64Overflow \<le> \<bar>r\<bar>
                   then (withinRange float64Overflow r, Some ErrRange)
                   else parseFloatOther L s
               | _ \<Rightarrow> parseFloatOther L s))
          else (case readFloat s of
              None \<Rightarrow> (0, Some ErrSyntax)
            | Some (neg, m, e) \<Rightarrow>
                if float64Overflow \<le> decimalValue m e
                then (if neg then NegInf else PosInf, Some ErrRange)
                else (Finite (if neg then - decimalValue m e else decimalValue m e), None)))"

subsubsection \<open>sort.SliceStable\<close>

text \<open>
  \<^verbatim>\<open>sort.SliceStable\<close> runs an insertion sort on blocks of 20 elements and merges the
  blocks; on a slice of at most 20 elements it is the insertion sort below alone, and
  for a \<^verbatim>\<open>less\<close> that is a strict weak order every stable sort returns the same slice.
  The inner loop \<^verbatim>\<open>for j := i; j > a && less(j, j-1); j-- { swap(j, j-1) }\<close> moves the
  element \<open>x\<close> left through the sorted prefix, which \<open>insertBack\<close> holds last element
  first.
\<close>

fun insertBack :: "('a \<Rightarrow> 'a \<Rightarrow> bool) \<Rightarrow> 'a \<Rightarrow> 'a list \<Rightarrow> 'a list" where
  "insertBack lessFn x [] = [x]"
| "insertBack lessFn x (y # p) =
     (if lessFn x y then y # insertBack lessFn x p else x # y # p)"

definition SliceStable :: "('a \<Rightarrow> 'a \<Rightarrow> bool) \<Rightarrow> 'a list \<Rightarrow> 'a list" where
  "SliceStable lessFn xs = rev (foldl (\<lambda>p x. insertBack lessFn x p) [] xs)"

subsection \<open>The repository\<close>

text \<open>Modelled from the spec: the declarations of \<^verbatim>\<open>cityQuery\<close>, \<^verbatim>\<open>match\<close> and
  \<^verbatim>\<open>suggestions\<close> are in a file that is not among the sources; the fields are those the
  code reads and writes, with the types section 3 of the specification gives them.\<close>

record cityQuery =
  name :: string
  latitude :: string
  longitude :: string

record match =
  Name :: string
  Latitude :: float64
  Longitude :: float64
  Score :: float32

record suggestions =
  Suggestions :: "match list"

record cityRepository =
  records :: "string list list"

definition cityNameIndex :: nat where "cityNameIndex = 1"
definition cityASCIINameIndex :: nat where "cityASCIINameIndex = 2"
definition cityAlernateNamesIndex :: nat where "cityAlernateNamesIndex = 3"
definition cityLatitudeIndex :: nat where "cityLatitudeIndex = 4"
definition cityLongitudeIndex :: nat where "cityLongitudeIndex = 5"
definition cityCountryCodeIndex :: nat where "cityCountryCodeIndex = 8"
definition cityAdminLevel1CodeIndex :: nat where "cityAdminLevel1CodeIndex = 10"

text \<open>An index expression \<^verbatim>\<open>xs[i]\<close> panics out of range.\<close>

definition index :: "'a list \<Rightarrow> int \<Rightarrow> panic + 'a" where
  "index xs i = (if 0 \<le> i \<and> i < int (length xs) then Inr (xs ! nat i) else Inl IndexOutOfRange)"

text \<open>A slice expression \<^verbatim>\<open>a[lo:hi]\<close> on the rune slice of \<^verbatim>\<open>[]rune(s)\<close>: the upper bound
  is checked against the capacity, so the slice can reach into the spare elements.\<close>

definition sliceRunes :: "golib \<Rightarrow> nat list \<Rightarrow> int \<Rightarrow> int \<Rightarrow> panic + nat list" where
  "sliceRunes L a lo hi =
     (if 0 \<le> lo \<and> lo \<le> hi \<and> hi \<le> int (length a + length (runeSpare L (length a)))
      then Inr (take (nat (hi - lo)) (drop (nat lo) (a @ runeSpare L (length a))))
      else Inl SliceBoundsOutOfRange)"

definition fetchCityNameOf :: "string list \<Rightarrow> string" where
  "fetchCityNameOf record =
     (if length record > cityNameIndex then record ! cityNameIndex else ''-'')"

definition fetchCountryNameOf :: "string list \<Rightarrow> string" where
  "fetchCountryNameOf record =
     (if length record > cityCountryCodeIndex then record ! cityCountryCodeIndex else ''-'')"

definition fetchFirstAdministrationLevelOf :: "string list \<Rightarrow> string" where
  "fetchFirstAdministrationLevelOf record =
     (if length record > cityAdminLevel1CodeIndex then record ! cityAdminLevel1CodeIndex
      else ''-'')"

definition fetchLatitude :: "golib \<Rightarrow> string list \<Rightarrow> float64" where
  "fetchLatitude L record =
     (if length record > cityLatitudeIndex
      then fst (ParseFloat L (record ! cityLatitudeIndex)) else 0)"

definition fetchLongitude :: "golib \<Rightarrow> string list \<Rightarrow> float64" where
  "fetchLongitude L record =
     (if length record > cityLongitudeIndex
      then fst (ParseFloat L (record ! cityLongitudeIndex)) else 0)"

definition computeMatchingCharWeight :: "string \<Rightarrow> string \<Rightarrow> float64" where
  "computeMatchingCharWeight queryName matchedWord =
     float64_of_int (int (RuneCountInString queryName))
       / float64_of_int (int (RuneCountInString matchedWord))"

definition latitudeMaximumRange :: float64 where
  "latitudeMaximumRange = Finite 180"

definition longitudeMaximumRange :: float64 where
  "longitudeMaximumRange = Finite 360"

definition computeLatitudeScoreWeight :: "golib \<Rightarrow> cityQuery \<Rightarrow> string list \<Rightarrow> float64" where
  "computeLatitudeScoreWeight L query record =
     (case ParseFloat L (latitude query) of
        (queryLatitude, None) \<Rightarrow>
          (let recordLatitude = fetchLatitude L record;
               distanceRatio = \<bar>queryLatitude - recordLatitude\<bar> / latitudeMaximumRange
           in 1 - distanceRatio)
      | (queryLatitude, Some err) \<Rightarrow> 1)"

definition computeLongitudeScoreWeight :: "golib \<Rightarrow> cityQuery \<Rightarrow> string list \<Rightarrow> float64" where
  "computeLongitudeScoreWeight L query record =
     (case ParseFloat L (longitude query) of
        (queryLongitude, None) \<Rightarrow>
          (let recordLongitude = fetchLongitude L record;
               distanceRatio = \<bar>queryLongitude - recordLongitude\<bar> / longitudeMaximumRange
           in 1 - distanceRatio)
      | (queryLongitude, Some err) \<Rightarrow> 1)"

definition computeScoreFor :: "golib \<Rightarrow> cityQuery \<Rightarrow> string \<Rightarrow> string list \<Rightarrow> float64" where
  "computeScoreFor L query matchedWord record =
     (let matchingCharWeight = computeMatchingCharWeight (name query) matchedWord;
          latitudeWeight = computeLatitudeScoreWeight L query record;
          longitudeWeight = computeLongitudeScoreWeight L query record
      in matchingCharWeight * latitudeWeight * longitudeWeight)"

text \<open>The two scans of \<^verbatim>\<open>findMatchingAlternateNameWholeWord\<close>, each a loop over an index
  into the rune slice. The comma is the rune \<open>0x2C\<close>.\<close>

definition comma :: nat where
  "comma = 0x2C"

function findAlternateNameWordStartIndex :: "nat list \<Rightarrow> int \<Rightarrow> panic + int" where
  "findAlternateNameWordStartIndex alternateNames wordStartIndex =
     (if wordStartIndex > 0 then
        (case index alternateNames wordStartIndex of
           Inl p \<Rightarrow> Inl p
         | Inr r \<Rightarrow>
             if r = comma then Inr (wordStartIndex + 1)
             else findAlternateNameWordStartIndex alternateNames (wordStartIndex - 1))
      else Inr wordStartIndex)"
  by pat_completeness auto
termination
  by (relation "measure (\<lambda>(a, i). nat i)") auto

function findAlternateNameWordEndIndex :: "nat list \<Rightarrow> int \<Rightarrow> panic + int" where
  "findAlternateNameWordEndIndex alternateNames wordEndIndex =
     (if wordEndIndex < int (length alternateNames) then
        (case index alternateNames wordEndIndex of
           Inl p \<Rightarrow> Inl p
         | Inr r \<Rightarrow>
             if r = comma then Inr (wordEndIndex - 1)
             else findAlternateNameWordEndIndex alternateNames (wordEndIndex + 1))
      else Inr wordEndIndex)"
  by pat_completeness auto
termination
  by (relation "measure (\<lambda>(a, i). nat (int (length a) - i))") auto

definition findMatchingAlternateNameWholeWord :: "golib \<Rightarrow> string \<Rightarrow> string \<Rightarrow> panic + string" where
  "findMatchingAlternateNameWholeWord L recordAlternateNames queryName =
     (let indexMatch = Index (ToLower L recordAlternateNames) queryName;
          alternateNames = runes recordAlternateNames
      in case findAlternateNameWordStartIndex alternateNames indexMatch of
           Inl p \<Rightarrow> Inl p
         | Inr indexWordStart \<Rightarrow>
             (case findAlternateNameWordEndIndex alternateNames
                     (indexMatch + int (RuneCountInString queryName)) of
                Inl p \<Rightarrow> Inl p
              | Inr indexWordEnd \<Rightarrow>
                  (case sliceRunes L alternateNames indexWordStart (indexWordEnd + 1) of
                     Inl p \<Rightarrow> Inl p
                   | Inr w \<Rightarrow> Inr (string_of_runes w))))"

text \<open>\<^verbatim>\<open>matchQueryName\<close>: the city name is read through its accessor, the ASCII name and
  the alternate names by a plain index expression.\<close>

definition matchQueryName :: "golib \<Rightarrow> string list \<Rightarrow> cityQuery \<Rightarrow> panic + bool \<times> float32" where
  "matchQueryName L record query =
     (if Contains (ToLower L (fetchCityNameOf record)) (name query) then
        Inr (True, to_float32 (computeScoreFor L query (fetchCityNameOf record) record))
      else
        (case index record (int cityASCIINameIndex) of
           Inl p \<Rightarrow> Inl p
         | Inr asciiName \<Rightarrow>
             if Contains (ToLower L asciiName) (name query) then
               Inr (True, to_float32 (computeScoreFor L query asciiName record))
             else
               (case index record (int cityAlernateNamesIndex) of
                  Inl p \<Rightarrow> Inl p
                | Inr alternateNames \<Rightarrow>
                    if Contains (ToLower L alternateNames) (name query) then
                      (case findMatchingAlternateNameWholeWord L alternateNames (name query) of
                         Inl p \<Rightarrow> Inl p
                       | Inr matchedWholeWord \<Rightarrow>
                           Inr (True,
                             to_float32 (computeScoreFor L query matchedWholeWord record)))
                    else Inr (False, to_float32 0))))"

text \<open>\<^verbatim>\<open>fmt.Sprintf("%s, %s, %s", a, b, c)\<close>.\<close>

definition Sprintf3 :: "string \<Rightarrow> string \<Rightarrow> string \<Rightarrow> string" where
  "Sprintf3 a b c = a @ '', '' @ b @ '', '' @ c"

definition makeMatch :: "golib \<Rightarrow> string list \<Rightarrow> float32 \<Rightarrow> match" where
  "makeMatch L record score =
     \<lparr>Name = Sprintf3 (fetchCityNameOf record) (fetchFirstAdministrationLevelOf record)
               (fetchCountryNameOf record),
      Latitude = fetchLatitude L record,
      Longitude = fetchLongitude L record,
      Score = score\<rparr>"

text \<open>The loop of \<^verbatim>\<open>findSuggestionsFor\<close> over the records, with the slice it appends to.\<close>

fun scanRecords :: "golib \<Rightarrow> cityQuery \<Rightarrow> string list list \<Rightarrow> match list \<Rightarrow> panic + match list" where
  "scanRecords L query [] result = Inr result"
| "scanRecords L query (record # rest) result =
     (case matchQueryName L record query of
        Inl p \<Rightarrow> Inl p
      | Inr (matched, score) \<Rightarrow>
          if matched then scanRecords L query rest (result @ [makeMatch L record score])
          else scanRecords L query rest result)"

definition findSuggestionsFor :: "golib \<Rightarrow> cityRepository \<Rightarrow> cityQuery \<Rightarrow> panic + suggestions" where
  "findSuggestionsFor L repository query =
     (if name query = [] then Inr \<lparr>Suggestions = []\<rparr>
      else
        (case scanRecords L (query\<lparr>name := ToLower L (name query)\<rparr>) (records repository) [] of
           Inl p \<Rightarrow> Inl p
         | Inr result \<Rightarrow> Inr \<lparr>Suggestions = result\<rparr>))"

definition FindRankedSuggestionsFor :: "golib \<Rightarrow> cityRepository \<Rightarrow> cityQuery \<Rightarrow> panic + suggestions" where
  "FindRankedSuggestionsFor L repository query =
     (case findSuggestionsFor L repository query of
        Inl p \<Rightarrow> Inl p
      | Inr found \<Rightarrow>
          Inr (found\<lparr>Suggestions :=
                 SliceStable (\<lambda>a b. f64_gt (Score a) (Score b)) (Suggestions found)\<rparr>))"

text \<open>A library instance that closes the examples: the gc run time's 32-rune buffer for
  a rune slice that does not escape (exact capacity beyond it), no case pairs above
  ASCII, and a \<^verbatim>\<open>ParseFloat\<close> without underscores and hexadecimal numbers. The examples
  are ASCII and decimal, so the last two are never consulted.\<close>

definition gc :: golib where
  "gc = \<lparr>unicodeLowerTable = (\<lambda>r. r),
         runeSpare = (\<lambda>n. replicate (32 - n) 0),
         parseFloatOther = (\<lambda>s. (0, Some ErrSyntax))\<rparr>"

section \<open>Properties\<close>

subsection \<open>Evaluation of the library on ASCII text\<close>

lemma SliceStable_Nil: "SliceStable lessFn [] = []"
  by (simp add: SliceStable_def)

lemmas eval_string =
  byte_def ToLower_def isASCII_def lowerByte_def HasPrefix_def Contains_def
  char_of_def bit_Suc_0_iff

lemma Decode_ASCII: "byte c < 0x80 \<Longrightarrow> DecodeRuneInString (c # s) = (byte c, 1)"
  by simp

lemma runes_ASCII: "isASCII s \<Longrightarrow> runes s = map byte s"
  by (induction s) (simp_all add: isASCII_def)

lemma RuneCount_ASCII: "isASCII s \<Longrightarrow> RuneCountInString s = length s"
  by (simp add: RuneCountInString_def runes_ASCII)

lemmas eval_index =
  index_def cityNameIndex_def cityASCIINameIndex_def cityAlernateNamesIndex_def
  cityLatitudeIndex_def cityLongitudeIndex_def cityCountryCodeIndex_def
  cityAdminLevel1CodeIndex_def

subsection \<open>UTF-8: decoding what was encoded\<close>

text \<open>Text is a list of Unicode scalar values, and its Go string is their encoding.
  Decoding the encoding gives the code points back, one rune for each.\<close>

lemma byte_char_of: "n < 256 \<Longrightarrow> byte (char_of n) = n"
  by (simp add: byte_def)

lemma mod_offset: "m < k \<Longrightarrow> (c * k + m) mod k = (m::nat)"
  by simp

lemma Decode2:
  assumes "2 \<le> q" "q < 32" "m < 64"
  shows "DecodeRuneInString (char_of (0xC0 + q) # char_of (0x80 + m) # s) = (q * 64 + m, 2)"
proof -
  have b0: "byte (char_of (0xC0 + q)) = 0xC0 + q"
    using assms by (simp add: byte_char_of)
  have b1: "byte (char_of (0x80 + m)) = 0x80 + m"
    using assms by (simp add: byte_char_of)
  have m0: "(0xC0 + q) mod 0x20 = q"
    using mod_offset [of q 32 6] assms by simp
  have m1: "(0x80 + m) mod 0x40 = m"
    using mod_offset [of m 64 2] assms by simp
  show ?thesis
    using assms by (simp add: b0 b1 m0 m1 Let_def acceptLo_def acceptHi_def)
qed

lemma Decode3:
  assumes "a < 16" "b < 64" "c < 64" "a = 0 \<longrightarrow> 32 \<le> b" "a = 13 \<longrightarrow> b < 32"
  shows "DecodeRuneInString (char_of (0xE0 + a) # char_of (0x80 + b) # char_of (0x80 + c) # s)
    = (a * 0x1000 + b * 0x40 + c, 3)"
proof -
  have b0: "byte (char_of (0xE0 + a)) = 0xE0 + a"
    using assms by (simp add: byte_char_of)
  have b1: "byte (char_of (0x80 + b)) = 0x80 + b"
    using assms by (simp add: byte_char_of)
  have b2: "byte (char_of (0x80 + c)) = 0x80 + c"
    using assms by (simp add: byte_char_of)
  have m0: "(0xE0 + a) mod 0x10 = a"
    using mod_offset [of a 16 14] assms by simp
  have m1: "(0x80 + b) mod 0x40 = b"
    using mod_offset [of b 64 2] assms by simp
  have m2: "(0x80 + c) mod 0x40 = c"
    using mod_offset [of c 64 2] assms by simp
  show ?thesis
    using assms
    by (simp add: b0 b1 b2 m0 m1 m2 Let_def acceptLo_def acceptHi_def isCont_def) auto
qed

lemma Decode4:
  assumes "a < 5" "b < 64" "c < 64" "d < 64" "a = 0 \<longrightarrow> 16 \<le> b" "a = 4 \<longrightarrow> b < 16"
  shows "DecodeRuneInString
      (char_of (0xF0 + a) # char_of (0x80 + b) # char_of (0x80 + c) # char_of (0x80 + d) # s)
    = (a * 0x40000 + b * 0x1000 + c * 0x40 + d, 4)"
proof -
  have b0: "byte (char_of (0xF0 + a)) = 0xF0 + a"
    using assms by (simp add: byte_char_of)
  have b1: "byte (char_of (0x80 + b)) = 0x80 + b"
    using assms by (simp add: byte_char_of)
  have b2: "byte (char_of (0x80 + c)) = 0x80 + c"
    using assms by (simp add: byte_char_of)
  have b3: "byte (char_of (0x80 + d)) = 0x80 + d"
    using assms by (simp add: byte_char_of)
  have m0: "(0xF0 + a) mod 0x08 = a"
    using mod_offset [of a 8 30] assms by simp
  have m1: "(0x80 + b) mod 0x40 = b"
    using mod_offset [of b 64 2] assms by simp
  have m2: "(0x80 + c) mod 0x40 = c"
    using mod_offset [of c 64 2] assms by simp
  have m3: "(0x80 + d) mod 0x40 = d"
    using mod_offset [of d 64 2] assms by simp
  show ?thesis
    using assms
    by (simp add: b0 b1 b2 b3 m0 m1 m2 m3 Let_def acceptLo_def acceptHi_def isCont_def) auto
qed

lemma digits64:
  fixes r :: nat
  obtains q m where "r = q * 64 + m" "m < 64" "q = r div 64" "m = r mod 64"
  by (metis div_mult_mod_eq mod_less_divisor zero_less_numeral)

lemma encode_decode1:
  assumes "r \<le> 0x7F"
  shows "DecodeRuneInString (encodeRune r @ s) = (r, length (encodeRune r))"
  using assms by (simp add: encodeRune_def byte_char_of)

lemma encode_decode2:
  assumes "0x7F < r" "r \<le> 0x7FF"
  shows "DecodeRuneInString (encodeRune r @ s) = (r, length (encodeRune r))"
proof -
  obtain q m where d: "r = q * 64 + m" "m < 64" "q = r div 64" "m = r mod 64"
    by (rule digits64)
  have enc: "encodeRune r = [char_of (0xC0 + q), char_of (0x80 + m)]"
    using assms by (simp add: encodeRune_def d(3,4))
  have "2 \<le> q" "q < 32"
    using assms d(1,2) by linarith+
  then have "DecodeRuneInString (char_of (0xC0 + q) # char_of (0x80 + m) # s) = (q * 64 + m, 2)"
    using d(2) by (intro Decode2)
  then show ?thesis
    unfolding enc using d(1) by (simp del: DecodeRuneInString.simps)
qed

lemma encode_decode3:
  assumes "0x7FF < r" "r \<le> 0xFFFF" "r < 0xD800 \<or> 0xDFFF < r"
  shows "DecodeRuneInString (encodeRune r @ s) = (r, length (encodeRune r))"
proof -
  obtain x c where d1: "r = x * 64 + c" "c < 64" "x = r div 64" "c = r mod 64"
    by (rule digits64)
  obtain a b where d2: "x = a * 64 + b" "b < 64" "a = x div 64" "b = x mod 64"
    by (rule digits64)
  have a: "a = r div 0x1000"
    unfolding d2(3) d1(3) by (simp add: div_mult2_eq [symmetric])
  have enc: "encodeRune r = [char_of (0xE0 + a), char_of (0x80 + b), char_of (0x80 + c)]"
    using assms by (auto simp add: encodeRune_def a d2(4) d1(3,4))
  have "a < 16" "a = 0 \<longrightarrow> 32 \<le> b" "a = 13 \<longrightarrow> b < 32"
    using assms d1(1,2) d2(1,2) by auto
  then have "DecodeRuneInString (char_of (0xE0 + a) # char_of (0x80 + b) # char_of (0x80 + c) # s)
      = (a * 0x1000 + b * 0x40 + c, 3)"
    using d1(2) d2(2) by (intro Decode3)
  then show ?thesis
    unfolding enc using d1(1) d2(1) by (simp del: DecodeRuneInString.simps)
qed

lemma encode_decode4:
  assumes "0xFFFF < r" "r \<le> 0x10FFFF"
  shows "DecodeRuneInString (encodeRune r @ s) = (r, length (encodeRune r))"
proof -
  obtain x d where d1: "r = x * 64 + d" "d < 64" "x = r div 64" "d = r mod 64"
    by (rule digits64)
  obtain y c where d2: "x = y * 64 + c" "c < 64" "y = x div 64" "c = x mod 64"
    by (rule digits64)
  obtain a b where d3: "y = a * 64 + b" "b < 64" "a = y div 64" "b = y mod 64"
    by (rule digits64)
  have y: "y = r div 0x1000"
    unfolding d2(3) d1(3) by (simp add: div_mult2_eq [symmetric])
  have a: "a = r div 0x40000"
    unfolding d3(3) y by (simp add: div_mult2_eq [symmetric])
  have enc: "encodeRune r
      = [char_of (0xF0 + a), char_of (0x80 + b), char_of (0x80 + c), char_of (0x80 + d)]"
    using assms unfolding a d3(4) y d2(4) d1(3,4) by (simp add: encodeRune_def)
  have "a < 5" "a = 0 \<longrightarrow> 16 \<le> b" "a = 4 \<longrightarrow> b < 16"
    using assms d1(1,2) d2(1,2) d3(1,2) by auto
  then have "DecodeRuneInString
      (char_of (0xF0 + a) # char_of (0x80 + b) # char_of (0x80 + c) # char_of (0x80 + d) # s)
      = (a * 0x40000 + b * 0x1000 + c * 0x40 + d, 4)"
    using d1(2) d2(2) d3(2) by (intro Decode4)
  then show ?thesis
    unfolding enc using d1(1) d2(1) d3(1) by (simp del: DecodeRuneInString.simps)
qed

lemma encode_decode:
  assumes "validRune r"
  shows "DecodeRuneInString (encodeRune r @ s) = (r, length (encodeRune r))"
proof -
  consider "r \<le> 0x7F" | "0x7F < r" "r \<le> 0x7FF" | "0x7FF < r" "r \<le> 0xFFFF" | "0xFFFF < r"
    by linarith
  then show ?thesis
  proof cases
    case 1 then show ?thesis by (rule encode_decode1)
  next
    case 2 then show ?thesis by (rule encode_decode2)
  next
    case 3 then show ?thesis using assms by (intro encode_decode3) (auto simp add: validRune_def)
  next
    case 4 then show ?thesis using assms by (intro encode_decode4) (auto simp add: validRune_def)
  qed
qed

lemma encodeRune_not_Nil: "encodeRune r \<noteq> []"
  by (simp add: encodeRune_def)

lemma runes_encode: "list_all validRune rs \<Longrightarrow> runes (string_of_runes rs @ s) = rs @ runes s"
proof (induction rs)
  case Nil
  then show ?case by (simp add: string_of_runes_def)
next
  case (Cons r rs)
  obtain c cs where e: "encodeRune r = c # cs"
    using encodeRune_not_Nil [of r] by (cases "encodeRune r") auto
  have v: "validRune r" using Cons.prems by simp
  have dec: "DecodeRuneInString (c # cs @ string_of_runes rs @ s) = (r, Suc (length cs))"
    using encode_decode [OF v, of "string_of_runes rs @ s"] by (simp add: e)
  have "runes (string_of_runes (r # rs) @ s) = runes (c # cs @ string_of_runes rs @ s)"
    by (simp add: string_of_runes_def e)
  also have "\<dots> = r # runes (string_of_runes rs @ s)"
    by (simp add: dec del: DecodeRuneInString.simps)
  finally show ?case using Cons by simp
qed

lemma runes_string_of_runes: "list_all validRune rs \<Longrightarrow> runes (string_of_runes rs) = rs"
  using runes_encode [of rs "[]"] by simp

lemma RuneCount_string_of_runes:
  "list_all validRune rs \<Longrightarrow> RuneCountInString (string_of_runes rs) = length rs"
  by (simp add: RuneCountInString_def runes_string_of_runes)

subsection \<open>Substrings and lower case\<close>

text \<open>\<open>Contains\<close> is the substring test, \<open>Index\<close> finds an occurrence, and lower-casing
  the encoding of a text lower-cases its code points one by one, on both paths of
  \<^verbatim>\<open>strings.ToLower\<close>.\<close>

lemma Index_prefix: "Index (b @ c) b = 0"
proof (cases "b @ c")
  case Nil
  then show ?thesis by simp
next
  case (Cons x xs)
  have "HasPrefix (x # xs) b"
    unfolding Cons [symmetric] by (simp add: HasPrefix_def)
  then show ?thesis by (simp add: Cons)
qed

lemma Index_append: "0 \<le> Index (a @ b @ c) b"
  by (induction a) (simp_all add: Index_prefix Let_def)

lemma Contains_append: "Contains (a @ b @ c) b"
  by (simp add: Contains_def Index_append)

lemma Index_occurrence:
  "0 \<le> Index s sub \<Longrightarrow> \<exists>a c. s = a @ sub @ c \<and> int (length a) = Index s sub"
proof (induction s)
  case Nil
  then show ?case by (simp split: if_splits)
next
  case (Cons x s)
  show ?case
  proof (cases "HasPrefix (x # s) sub")
    case True
    then have "x # s = [] @ sub @ drop (length sub) (x # s)"
      unfolding HasPrefix_def by (metis append_Nil append_take_drop_id)
    moreover have "Index (x # s) sub = 0" using True by simp
    ultimately show ?thesis by (metis list.size(3) of_nat_0)
  next
    case False
    then have i: "0 \<le> Index s sub" "Index (x # s) sub = Index s sub + 1"
      using Cons.prems by (simp_all add: Let_def split: if_splits)
    then obtain a c where "s = a @ sub @ c" "int (length a) = Index s sub"
      using Cons.IH by blast
    then have "x # s = (x # a) @ sub @ c \<and> int (length (x # a)) = Index (x # s) sub"
      using i by simp
    then show ?thesis by blast
  qed
qed

lemma Contains_iff: "Contains s sub \<longleftrightarrow> (\<exists>a c. s = a @ sub @ c)"
  using Index_occurrence [of s sub] Contains_append by (auto simp add: Contains_def)








subsection \<open>Evaluation of \<^verbatim>\<open>ParseFloat\<close>\<close>

text \<open>The comparison with the overflow threshold is settled once, on natural numbers, so
  that no later proof has to compute with numbers of a thousand bits.\<close>

lemma pow308: "(10::nat) ^ 308 < 2 ^ 1024 - 2 ^ 970"
  by simp

lemma pow308_real: "(10::real) ^ 308 < float64Overflow"
proof -
  have le: "(2::nat) ^ 970 \<le> 2 ^ 1024"
    by (rule power_increasing) simp_all
  have "real ((10::nat) ^ 308) < real (2 ^ 1024 - 2 ^ 970)"
    using pow308 by (simp only: of_nat_less_iff)
  then show ?thesis
    unfolding float64Overflow_def of_nat_diff [OF le] by (simp only: of_nat_power of_nat_numeral)
qed

lemma decimal_in_range:
  assumes "m < 10 ^ 308" and "e \<le> 0"
  shows "decimalValue m e < float64Overflow"
proof -
  have "real m / 10 ^ nat (- e) \<le> real m"
    by (simp add: divide_le_eq_1 field_simps mult_le_cancel_left1)
  moreover have "real m < 10 ^ 308"
    using assms(1) by (metis of_nat_less_iff of_nat_numeral of_nat_power)
  moreover have "decimalValue m e = real m / 10 ^ nat (- e)"
    using assms(2) by (cases "e = 0") (simp_all add: decimalValue_def)
  ultimately show ?thesis using pow308_real by linarith
qed



lemma ParseFloat_decimal:
  assumes "special s = None" and "\<not> isOther s" and "readFloat s = Some (neg, m, e)"
    and "m < 10 ^ 308" and "e \<le> 0"
  shows "ParseFloat L s = (Finite (if neg then - decimalValue m e else decimalValue m e), None)"
proof -
  have "\<not> float64Overflow \<le> decimalValue m e"
    using decimal_in_range [OF assms(4,5)] by (simp only: not_le)
  then show ?thesis
    unfolding ParseFloat_def using assms(1-3) by simp
qed

lemma ParseFloat_syntax:
  assumes "special s = None" and "\<not> isOther s" and "readFloat s = None"
  shows "ParseFloat L s = (0, Some ErrSyntax)"
  using assms by (simp add: ParseFloat_def)


text \<open>The finite values the program computes with are far inside the range: there the
  operations return the exact result. A finite value that \<^verbatim>\<open>ParseFloat\<close> returns is inside
  the range, and so is the weight computed from it against a record coordinate of 0.\<close>

lemma float64Overflow_large: "2 ^ 63 < float64Overflow"
proof -
  have "(2::real) ^ 63 \<le> 10 ^ 63"
    by (rule power_mono) simp_all
  also have "(10::real) ^ 63 \<le> 10 ^ 308"
    by (rule power_increasing) simp_all
  finally show ?thesis
    using pow308_real by (rule order_le_less_trans)
qed

lemma float32Overflow_large: "2 ^ 63 < float32Overflow"
  by (simp add: float32Overflow_def)

lemma withinRange_Finite: "\<bar>r\<bar> < limit \<Longrightarrow> withinRange limit r = Finite r"
  by (auto simp add: withinRange_def)

lemma withinRange64_small [simp]:
  "\<bar>r\<bar> \<le> 1000 \<Longrightarrow> withinRange float64Overflow r = Finite r"
proof (rule withinRange_Finite)
  assume "\<bar>r\<bar> \<le> 1000"
  moreover have "(1000::real) < 2 ^ 63" by simp
  ultimately show "\<bar>r\<bar> < float64Overflow"
    using float64Overflow_large by linarith
qed

lemma withinRange32_small [simp]:
  "\<bar>r\<bar> \<le> 1000 \<Longrightarrow> withinRange float32Overflow r = Finite r"
proof (rule withinRange_Finite)
  assume "\<bar>r\<bar> \<le> 1000"
  moreover have "(1000::real) < 2 ^ 63" by simp
  ultimately show "\<bar>r\<bar> < float32Overflow"
    using float32Overflow_large by linarith
qed





lemmas eval_float = readFloat_def optSign_def byte_def isDigit_def digitsVal_def expVal_def

lemma ParseFloat_empty: "ParseFloat L '''' = (0, Some ErrSyntax)"
  by (rule ParseFloat_syntax) (simp_all add: special_def isOther_def eval_float)

lemma ParseFloat_lat: "ParseFloat L ''48.8566'' = (Finite 48.8566, None)"
proof -
  have "ParseFloat L ''48.8566'' = (Finite (if False then - decimalValue 488566 (- 4) else decimalValue 488566 (- 4)), None)"
    by (rule ParseFloat_decimal) (simp_all add: special_def isOther_def eval_float)
  then show ?thesis by (simp add: decimalValue_def)
qed

lemma ParseFloat_lon: "ParseFloat L ''2.3522'' = (Finite 2.3522, None)"
proof -
  have "ParseFloat L ''2.3522'' = (Finite (if False then - decimalValue 23522 (- 4) else decimalValue 23522 (- 4)), None)"
    by (rule ParseFloat_decimal) (simp_all add: special_def isOther_def eval_float)
  then show ?thesis by (simp add: decimalValue_def)
qed


lemma ParseFloat_0: "ParseFloat L ''0'' = (Finite 0, None)"
proof -
  have "ParseFloat L ''0'' = (Finite (if False then - decimalValue 0 0 else decimalValue 0 0), None)"
    by (rule ParseFloat_decimal) (simp_all add: special_def isOther_def eval_float)
  then show ?thesis by (simp add: decimalValue_def)
qed


subsection \<open>The empty query name\<close>

text \<open>
  Claim C6. A query whose name is the empty string gets the empty suggestion list,
  whatever its latitude and longitude strings and whatever the record store holds: the
  function returns before the loop over the records, so also on a store whose records
  would make the scan panic.
\<close>

theorem empty_name_returns_nothing:
  "findSuggestionsFor L repository \<lparr>name = [], latitude = la, longitude = lo\<rparr>
     = Inr \<lparr>Suggestions = []\<rparr>
   \<and> FindRankedSuggestionsFor L repository \<lparr>name = [], latitude = la, longitude = lo\<rparr>
     = Inr \<lparr>Suggestions = []\<rparr>"
  by (simp add: FindRankedSuggestionsFor_def findSuggestionsFor_def SliceStable_Nil)

subsection \<open>Short rows\<close>

text \<open>
  Claim C1 says that a row with fewer than 11 fields never makes the computation fail.
  The accessors of the city name, the country, the administrative level and the
  coordinates test the length of the row; \<^verbatim>\<open>matchQueryName\<close> reads the ASCII name and the
  alternate names as \<^verbatim>\<open>record[2]\<close> and \<^verbatim>\<open>record[3]\<close> without a test. On the store with
  the single row of one field, the default city name \<^verbatim>\<open>-\<close> does not contain the query
  name, the ASCII name is read, and the program panics.
\<close>

theorem short_row_panics:
  "FindRankedSuggestionsFor L \<lparr>records = [[''1'']]\<rparr>
      \<lparr>name = ''paris'', latitude = la, longitude = lo\<rparr>
     = Inl IndexOutOfRange"
  by (simp add: FindRankedSuggestionsFor_def findSuggestionsFor_def matchQueryName_def
      fetchCityNameOf_def eval_index eval_string)

subsection \<open>The Paris scenario\<close>

text \<open>
  Claim C9. On the store that holds exactly the record of Paris (primary name and ASCII
  name \<^verbatim>\<open>Paris\<close>, no alternate names, latitude 48.8566, longitude 2.3522, country \<^verbatim>\<open>FR\<close>,
  administrative level \<^verbatim>\<open>A8\<close>; the other fields of the row are arbitrary), the query
  named \<^verbatim>\<open>paris\<close> with empty latitude and longitude strings returns exactly one
  suggestion: its display name is \<^verbatim>\<open>Paris, A8, FR\<close>, the city name, the administrative
  level and the country joined by comma and space, and its score is 1.
\<close>

theorem paris_scenario:
  "FindRankedSuggestionsFor L
     \<lparr>records = [f0 # ''Paris'' # ''Paris'' # '''' # ''48.8566'' # ''2.3522'' # f6 # f7 # ''FR''
                    # f9 # ''A8'' # rest]\<rparr>
     \<lparr>name = ''paris'', latitude = '''', longitude = ''''\<rparr>
   = Inr \<lparr>Suggestions =
       [\<lparr>Name = ''Paris, A8, FR'', Latitude = Finite 48.8566, Longitude = Finite 2.3522,
         Score = 1\<rparr>]\<rparr>"
proof -
  let ?r = "f0 # ''Paris'' # ''Paris'' # '''' # ''48.8566'' # ''2.3522'' # f6 # f7 # ''FR''
                    # f9 # ''A8'' # rest"
  let ?q = "\<lparr>name = ''paris'', latitude = '''', longitude = ''''\<rparr>"
  have nm: "fetchCityNameOf ?r = ''Paris''"
    by (simp add: fetchCityNameOf_def eval_index)
  have cw: "computeMatchingCharWeight ''paris'' ''Paris'' = 1"
    by (simp add: computeMatchingCharWeight_def RuneCount_ASCII isASCII_def byte_def
        float64_of_int_def one_float64_def)
  have sc: "computeScoreFor L ?q ''Paris'' ?r = 1"
    by (simp add: computeScoreFor_def cw computeLatitudeScoreWeight_def
        computeLongitudeScoreWeight_def ParseFloat_empty one_float64_def)
  have m: "matchQueryName L ?r ?q = Inr (True, 1)"
    unfolding matchQueryName_def nm by (simp add: sc eval_string one_float64_def)
  have mk: "makeMatch L ?r 1 = \<lparr>Name = ''Paris, A8, FR'', Latitude = Finite 48.8566,
      Longitude = Finite 2.3522, Score = 1\<rparr>"
    by (simp add: makeMatch_def Sprintf3_def fetchCityNameOf_def fetchCountryNameOf_def
        fetchFirstAdministrationLevelOf_def fetchLatitude_def fetchLongitude_def eval_index
        ParseFloat_lat ParseFloat_lon)
  have lo: "ToLower L ''paris'' = ''paris''"
    by (simp add: eval_string)
  have "findSuggestionsFor L \<lparr>records = [?r]\<rparr> ?q = Inr \<lparr>Suggestions = [makeMatch L ?r 1]\<rparr>"
    by (simp add: findSuggestionsFor_def lo m)
  then show ?thesis
    by (simp add: FindRankedSuggestionsFor_def SliceStable_def mk)
qed

subsection \<open>The coordinate weights\<close>


lemma ParseFloat_NaN: "ParseFloat L ''NaN'' = (NaN, None)"
  by (simp add: ParseFloat_def special_def lowerByte_def byte_def char_of_def bit_Suc_0_iff)









subsection \<open>The matching character weight\<close>

lemma RuneCount_pos: "s \<noteq> [] \<Longrightarrow> 0 < RuneCountInString s"
  by (cases s) (simp_all add: RuneCountInString_def)

lemma ToLower_Nil_iff: "ToLower L s = [] \<longleftrightarrow> s = []"
proof (cases s)
  case Nil
  then show ?thesis by (simp add: ToLower_def isASCII_def)
next
  case (Cons c t)
  then show ?thesis
    by (simp add: ToLower_def Map_def encodeRune_not_Nil)
qed

text \<open>
  Claim C5. The weight is the rune count of the query name divided by the rune count of
  the matched word, as \<^verbatim>\<open>float64\<close>; a count of a Go string is below \<open>2\<^sup>6\<^sup>3\<close>, and the
  weight is then the quotient of the two numbers when the matched word is not empty. The
  counts are counts of code points and not of bytes: on the encodings of two texts the
  weight is the quotient of the numbers of their code points. The query name is not
  empty, since \<^verbatim>\<open>findSuggestionsFor\<close> returns on the empty name and lower-casing keeps a
  name non-empty (\<open>ToLower_Nil_iff\<close>); the weight is then exactly 1 when the matched
  word has as many code points as the query name.
\<close>

theorem char_weight_counts_code_points:
  "computeMatchingCharWeight queryName matchedWord
     = Finite (real (RuneCountInString queryName)) / Finite (real (RuneCountInString matchedWord))
   \<and> (0 < RuneCountInString matchedWord \<and> RuneCountInString queryName < 2 ^ 63 \<longrightarrow>
        computeMatchingCharWeight queryName matchedWord
          = Finite (real (RuneCountInString queryName) / real (RuneCountInString matchedWord)))
   \<and> (list_all validRune qs \<and> list_all validRune ws \<and> ws \<noteq> [] \<and> length qs < 2 ^ 63 \<longrightarrow>
        computeMatchingCharWeight (string_of_runes qs) (string_of_runes ws)
          = Finite (real (length qs) / real (length ws)))
   \<and> (queryName \<noteq> [] \<and> RuneCountInString matchedWord = RuneCountInString queryName \<longrightarrow>
        computeMatchingCharWeight queryName matchedWord = Finite 1)
   \<and> (list_all validRune qs \<and> list_all validRune ws \<and> qs \<noteq> [] \<and> length ws = length qs \<longrightarrow>
        computeMatchingCharWeight (string_of_runes qs) (string_of_runes ws) = Finite 1)"
proof -
  have quot: "Finite (real n) / Finite (real m) = Finite (real n / real m)"
    if "0 < m" "n < 2 ^ 63" for n m :: nat
  proof -
    have "real n / real m \<le> real n"
      using that(1) by (simp add: divide_le_eq mult_le_cancel_left1)
    moreover have "real n < 2 ^ 63"
      using that(2) by (metis of_nat_less_iff of_nat_numeral of_nat_power)
    moreover have "0 \<le> real n / real m"
      by simp
    ultimately have "\<bar>real n / real m\<bar> < float64Overflow"
      using float64Overflow_large by linarith
    then show ?thesis
      using that(1) by (simp add: withinRange_Finite)
  qed
  have same: "Finite (real n) / Finite (real n) = Finite 1" if "0 < n" for n :: nat
    using that by simp
  have 1: "computeMatchingCharWeight q w
      = Finite (real (RuneCountInString q)) / Finite (real (RuneCountInString w))" for q w
    by (simp add: computeMatchingCharWeight_def float64_of_int_def)
  have 2: "computeMatchingCharWeight queryName matchedWord
      = Finite (real (RuneCountInString queryName) / real (RuneCountInString matchedWord))"
    if "0 < RuneCountInString matchedWord" "RuneCountInString queryName < 2 ^ 63"
    unfolding 1 using that by (rule quot)
  have 3: "computeMatchingCharWeight (string_of_runes qs) (string_of_runes ws)
      = Finite (real (length qs) / real (length ws))"
    if "list_all validRune qs" "list_all validRune ws" "ws \<noteq> []" "length qs < 2 ^ 63"
    unfolding 1 RuneCount_string_of_runes [OF that(1)] RuneCount_string_of_runes [OF that(2)]
    using that(3,4) by (intro quot) simp_all
  have 4: "computeMatchingCharWeight queryName matchedWord = Finite 1"
    if "queryName \<noteq> []" "RuneCountInString matchedWord = RuneCountInString queryName"
    unfolding 1 that(2) using RuneCount_pos [OF that(1)] by (rule same)
  have 5: "computeMatchingCharWeight (string_of_runes qs) (string_of_runes ws) = Finite 1"
    if "list_all validRune qs" "list_all validRune ws" "qs \<noteq> []" "length ws = length qs"
    unfolding 1 RuneCount_string_of_runes [OF that(1)] RuneCount_string_of_runes [OF that(2)]
      that(4)
    using that(3) by (intro same) simp
  show ?thesis
    using 1 2 3 4 5 by blast
qed

theorem char_weight_counts_code_points_witness:
  "list_all validRune [0xE9, 0x74, 0xE9] \<and> list_all validRune [0xC9, 0x74, 0xE9]
   \<and> length (string_of_runes [0xE9, 0x74, 0xE9]) = 5
   \<and> computeMatchingCharWeight (string_of_runes [0xE9, 0x74, 0xE9])
         (string_of_runes [0xC9, 0x74, 0xE9]) = Finite 1
   \<and> computeMatchingCharWeight (string_of_runes [0xE9]) (string_of_runes [0xE9, 0x74, 0xE9])
       = Finite (1 / 3)
   \<and> RuneCountInString ''par'' = 3 \<and> RuneCountInString ''Par'' = 3
   \<and> RuneCountInString ''Paris'' = 5
   \<and> computeMatchingCharWeight ''par'' ''Par'' = Finite 1
   \<and> computeMatchingCharWeight ''par'' ''Paris'' = Finite (3 / 5)"
proof -
  have v: "list_all validRune [0xE9, 0x74, 0xE9]" "list_all validRune [0xC9, 0x74, 0xE9]"
    "list_all validRune [0xE9]"
    by (simp_all add: validRune_def)
  have len: "length (string_of_runes [0xE9, 0x74, 0xE9]) = 5"
    by (simp add: string_of_runes_def encodeRune_def)
  have w1: "computeMatchingCharWeight (string_of_runes [0xE9, 0x74, 0xE9])
      (string_of_runes [0xC9, 0x74, 0xE9]) = Finite 1"
    using v char_weight_counts_code_points [of "string_of_runes [0xE9, 0x74, 0xE9]"
      "string_of_runes [0xC9, 0x74, 0xE9]" "[0xE9, 0x74, 0xE9]" "[0xC9, 0x74, 0xE9]",
      THEN conjunct2, THEN conjunct2, THEN conjunct2, THEN conjunct2]
    by simp
  have w2: "computeMatchingCharWeight (string_of_runes [0xE9])
      (string_of_runes [0xE9, 0x74, 0xE9]) = Finite (1 / 3)"
    using v char_weight_counts_code_points [of "string_of_runes [0xE9]"
      "string_of_runes [0xE9, 0x74, 0xE9]" "[0xE9]" "[0xE9, 0x74, 0xE9]",
      THEN conjunct2, THEN conjunct2, THEN conjunct1]
    by simp
  have n: "RuneCountInString ''par'' = 3" "RuneCountInString ''Par'' = 3"
    "RuneCountInString ''Paris'' = 5"
    by (simp_all add: RuneCount_ASCII isASCII_def byte_def)
  have w3: "computeMatchingCharWeight ''par'' ''Par'' = Finite 1"
    using n char_weight_counts_code_points [of "''par''" "''Par''" "[]" "[]",
      THEN conjunct2, THEN conjunct2, THEN conjunct2, THEN conjunct1]
    by simp
  have w4: "computeMatchingCharWeight ''par'' ''Paris'' = Finite (3 / 5)"
    using n char_weight_counts_code_points [of "''par''" "''Paris''" "[]" "[]",
      THEN conjunct2, THEN conjunct1]
    by simp
  show ?thesis
    using v len w1 w2 w3 w4 n by simp
qed

subsection \<open>The matched alternate name\<close>

declare findAlternateNameWordStartIndex.simps [simp del]
declare findAlternateNameWordEndIndex.simps [simp del]

lemma runes_FooBar: "runes ''Foo,Bar'' = [0x46, 0x6F, 0x6F, 0x2C, 0x42, 0x61, 0x72]"
  by (simp add: runes_ASCII isASCII_def byte_def)

lemma Index_FooBar: "Index (ToLower L ''Foo,Bar'') ''bar'' = 4"
  by (simp add: eval_string)

lemma start_FooBar:
  "findAlternateNameWordStartIndex [0x46, 0x6F, 0x6F, 0x2C, 0x42, 0x61, 0x72] 4 = Inr 4"
  by (simp add: findAlternateNameWordStartIndex.simps index_def comma_def)

lemma end_FooBar:
  "findAlternateNameWordEndIndex [0x46, 0x6F, 0x6F, 0x2C, 0x42, 0x61, 0x72] 7 = Inr 7"
  by (simp add: findAlternateNameWordEndIndex.simps index_def comma_def)

text \<open>
  Claim C2 says that the matched word of an alternate-names match is exactly the
  comma-delimited token that holds the first occurrence of the query name, up to the
  following comma or the end of the string. \<^verbatim>\<open>findAlternateNameWordEndIndex\<close> returns the
  index of the last rune of the token when it stops at a comma, and the length of the
  slice, one more, when it runs off the end; the caller slices up to that index plus one
  in both cases. For the last token the slice therefore ends one element past the
  length: with no spare capacity the program panics, otherwise the matched word is the
  token followed by the first spare element. For the alternate names \<^verbatim>\<open>Foo,Bar\<close> and
  the query name \<^verbatim>\<open>bar\<close> the matched word is never \<^verbatim>\<open>Bar\<close>.
\<close>

theorem last_alternate_name:
  "findMatchingAlternateNameWholeWord L ''Foo,Bar'' ''bar''
     = (case runeSpare L 7 of
          [] \<Rightarrow> Inl SliceBoundsOutOfRange
        | x # spare \<Rightarrow> Inr (''Bar'' @ encodeRune x))
   \<and> findMatchingAlternateNameWholeWord L ''Foo,Bar'' ''bar'' \<noteq> Inr ''Bar''"
proof -
  have n: "RuneCountInString ''bar'' = 3"
    by (simp add: RuneCount_ASCII isASCII_def byte_def)
  have bar: "string_of_runes [0x42, 0x61, 0x72] = ''Bar''"
    by (simp add: string_of_runes_def encodeRune_def char_of_def bit_Suc_0_iff)
  have sl: "sliceRunes L [0x46, 0x6F, 0x6F, 0x2C, 0x42, 0x61, 0x72] 4 8
      = (case runeSpare L 7 of
          [] \<Rightarrow> Inl SliceBoundsOutOfRange
        | x # spare \<Rightarrow> Inr [0x42, 0x61, 0x72, x])"
  proof -
    have len: "length [0x46, 0x6F, 0x6F, 0x2C, 0x42, 0x61, 0x72 :: nat] = 7"
      by simp
    show ?thesis
      unfolding sliceRunes_def len by (cases "runeSpare L 7") simp_all
  qed
  have "findMatchingAlternateNameWholeWord L ''Foo,Bar'' ''bar''
     = (case runeSpare L 7 of
          [] \<Rightarrow> Inl SliceBoundsOutOfRange
        | x # spare \<Rightarrow> Inr (string_of_runes [0x42, 0x61, 0x72] @ encodeRune x))"
    unfolding findMatchingAlternateNameWholeWord_def Index_FooBar runes_FooBar n Let_def
    by (simp add: start_FooBar end_FooBar sl string_of_runes_def split: list.splits)
  then show ?thesis
    by (simp add: bar encodeRune_not_Nil split: list.splits)
qed

subsection \<open>The scan of the records and the priority of the name fields\<close>

lemma scanRecords_no_panic:
  "list_all (\<lambda>r. \<not> isl (matchQueryName L r q)) rs \<Longrightarrow>
     scanRecords L q rs acc
       = Inr (acc @ map (\<lambda>r. makeMatch L r (snd (projr (matchQueryName L r q))))
                (filter (\<lambda>r. fst (projr (matchQueryName L r q))) rs))"
proof (induction rs arbitrary: acc)
  case Nil
  then show ?case by simp
next
  case (Cons r rs)
  then show ?case
    by (cases "matchQueryName L r q") (auto split: if_splits)
qed

lemma scanRecords_panic:
  "scanRecords L q rs acc = Inr ms \<Longrightarrow> r \<in> set rs \<Longrightarrow> \<not> isl (matchQueryName L r q)"
proof (induction rs arbitrary: acc)
  case Nil
  then show ?case by simp
next
  case (Cons x rs)
  then show ?case
    by (cases "matchQueryName L x q") (auto split: if_splits)
qed

lemma scanRecords_Inr:
  assumes "scanRecords L q rs acc = Inr ms"
  shows "ms = acc @ map (\<lambda>r. makeMatch L r (snd (projr (matchQueryName L r q))))
                (filter (\<lambda>r. fst (projr (matchQueryName L r q))) rs)"
proof -
  have "list_all (\<lambda>r. \<not> isl (matchQueryName L r q)) rs"
    using scanRecords_panic [OF assms] by (simp add: list_all_iff)
  from scanRecords_no_panic [OF this, of acc] assms show ?thesis by simp
qed

lemma fetch_update:
  assumes "i = cityASCIINameIndex \<or> i = cityAlernateNamesIndex"
  shows "fetchCityNameOf (record[i := v]) = fetchCityNameOf record"
    and "fetchLatitude L (record[i := v]) = fetchLatitude L record"
    and "fetchLongitude L (record[i := v]) = fetchLongitude L record"
  using assms
  by (auto simp add: fetchCityNameOf_def fetchLatitude_def fetchLongitude_def
      cityNameIndex_def cityASCIINameIndex_def cityAlernateNamesIndex_def cityLatitudeIndex_def
      cityLongitudeIndex_def)

lemma computeScoreFor_update:
  assumes "i = cityASCIINameIndex \<or> i = cityAlernateNamesIndex"
  shows "computeScoreFor L query w (record[i := v]) = computeScoreFor L query w record"
  by (simp add: computeScoreFor_def computeLatitudeScoreWeight_def
      computeLongitudeScoreWeight_def fetch_update [OF assms])

lemma charWeight_in_range:
  "computeMatchingCharWeight q w = Finite r \<Longrightarrow> \<bar>r\<bar> < float64Overflow"
  unfolding computeMatchingCharWeight_def float64_of_int_def
  by (auto simp add: withinRange_def split: if_splits)

lemma score_without_hints:
  "computeScoreFor L \<lparr>name = q, latitude = '''', longitude = ''''\<rparr> w record
     = computeMatchingCharWeight q w"
proof (cases "computeMatchingCharWeight q w")
  case (Finite r)
  then have "withinRange float64Overflow r = Finite r"
    by (intro withinRange_Finite charWeight_in_range)
  then show ?thesis
    by (simp add: computeScoreFor_def computeLatitudeScoreWeight_def
        computeLongitudeScoreWeight_def ParseFloat_empty one_float64_def Finite)
qed (simp_all add: computeScoreFor_def computeLatitudeScoreWeight_def
        computeLongitudeScoreWeight_def ParseFloat_empty one_float64_def)

lemma string_of_runes_ASCII: "isASCII s \<Longrightarrow> string_of_runes (map byte s) = s"
  by (induction s) (simp_all add: string_of_runes_def isASCII_def encodeRune_def byte_def)

lemma Springfield_word:
  "findMatchingAlternateNameWholeWord L ''Springfield,Springfield Town,New Springfield'' ''field''
     = Inr ''Springfield''"
proof -
  let ?alt = "''Springfield,Springfield Town,New Springfield''"
  define a where "a = map byte ?alt"
  have i: "Index (ToLower L ?alt) ''field'' = 6"
    by (simp add: eval_string)
  have n: "RuneCountInString ''field'' = 5"
    by (simp add: RuneCount_ASCII isASCII_def byte_def)
  have r: "runes ?alt = a"
    unfolding a_def by (rule runes_ASCII) (simp add: isASCII_def byte_def)
  have s: "findAlternateNameWordStartIndex a 6 = Inr 0"
    unfolding a_def
    by (simp add: findAlternateNameWordStartIndex.simps index_def comma_def byte_def)
  have e: "findAlternateNameWordEndIndex a 11 = Inr 10"
    unfolding a_def
    by (simp add: findAlternateNameWordEndIndex.simps index_def comma_def byte_def)
  have "sliceRunes L a 0 11 = Inr (map byte ''Springfield'')"
    unfolding a_def by (simp add: sliceRunes_def)
  moreover have "string_of_runes (map byte ''Springfield'') = ''Springfield''"
    by (rule string_of_runes_ASCII) (simp add: isASCII_def byte_def)
  ultimately have sl: "case_sum Inl (\<lambda>w. Inr (string_of_runes w)) (sliceRunes L a 0 11)
      = Inr ''Springfield''"
    by (simp only: sum.case)
  show ?thesis
    unfolding findMatchingAlternateNameWholeWord_def i n r Let_def
    by (simp add: s e sl)
qed

text \<open>
  Claim C7. \<^verbatim>\<open>matchQueryName\<close> tests the city name, then the ASCII name, then the
  alternate names, and the first field that contains the query name decides the matched
  word. If the city name contains it, the matched word is the city name and the ASCII
  name and the alternate names are not inspected: the result is the same whatever these
  two fields hold, and a row without them matches all the same. If only the ASCII name
  contains it, the alternate names are not inspected. A record whose city name and ASCII
  name do not contain it is still matched through its alternate names, with the word
  that \<^verbatim>\<open>findMatchingAlternateNameWholeWord\<close> extracts.
\<close>

theorem first_matching_field_decides:
  "(Contains (ToLower L (fetchCityNameOf record)) (name query) \<longrightarrow>
      matchQueryName L record query
        = Inr (True, to_float32 (computeScoreFor L query (fetchCityNameOf record) record))
      \<and> matchQueryName L (record[cityASCIINameIndex := x, cityAlernateNamesIndex := y]) query
        = matchQueryName L record query)
   \<and> (\<not> Contains (ToLower L (fetchCityNameOf record)) (name query)
       \<and> cityASCIINameIndex < length record
       \<and> Contains (ToLower L (record ! cityASCIINameIndex)) (name query) \<longrightarrow>
      matchQueryName L record query
        = Inr (True, to_float32 (computeScoreFor L query (record ! cityASCIINameIndex) record))
      \<and> matchQueryName L (record[cityAlernateNamesIndex := y]) query
        = matchQueryName L record query)
   \<and> (\<not> Contains (ToLower L (fetchCityNameOf record)) (name query)
       \<and> cityAlernateNamesIndex < length record
       \<and> \<not> Contains (ToLower L (record ! cityASCIINameIndex)) (name query)
       \<and> Contains (ToLower L (record ! cityAlernateNamesIndex)) (name query) \<longrightarrow>
      matchQueryName L record query
        = (case findMatchingAlternateNameWholeWord L (record ! cityAlernateNamesIndex)
                  (name query) of
             Inl p \<Rightarrow> Inl p
           | Inr matchedWholeWord \<Rightarrow>
               Inr (True, to_float32 (computeScoreFor L query matchedWholeWord record))))"
proof (intro conjI impI)
  assume c: "Contains (ToLower L (fetchCityNameOf record)) (name query)"
  then show "matchQueryName L record query
        = Inr (True, to_float32 (computeScoreFor L query (fetchCityNameOf record) record))"
    by (simp add: matchQueryName_def)
  show "matchQueryName L (record[cityASCIINameIndex := x, cityAlernateNamesIndex := y]) query
        = matchQueryName L record query"
    using c by (simp add: matchQueryName_def fetch_update computeScoreFor_update)
next
  assume c: "\<not> Contains (ToLower L (fetchCityNameOf record)) (name query)
       \<and> cityASCIINameIndex < length record
       \<and> Contains (ToLower L (record ! cityASCIINameIndex)) (name query)"
  then show "matchQueryName L record query
        = Inr (True, to_float32 (computeScoreFor L query (record ! cityASCIINameIndex) record))"
    by (simp add: matchQueryName_def index_def)
  show "matchQueryName L (record[cityAlernateNamesIndex := y]) query
        = matchQueryName L record query"
    using c
    by (simp add: matchQueryName_def index_def fetch_update computeScoreFor_update
        cityASCIINameIndex_def cityAlernateNamesIndex_def)
next
  assume c: "\<not> Contains (ToLower L (fetchCityNameOf record)) (name query)
       \<and> cityAlernateNamesIndex < length record
       \<and> \<not> Contains (ToLower L (record ! cityASCIINameIndex)) (name query)
       \<and> Contains (ToLower L (record ! cityAlernateNamesIndex)) (name query)"
  then show "matchQueryName L record query
        = (case findMatchingAlternateNameWholeWord L (record ! cityAlernateNamesIndex)
                  (name query) of
             Inl p \<Rightarrow> Inl p
           | Inr matchedWholeWord \<Rightarrow>
               Inr (True, to_float32 (computeScoreFor L query matchedWholeWord record)))"
    by (simp add: matchQueryName_def index_def cityASCIINameIndex_def
        cityAlernateNamesIndex_def)
qed

theorem first_matching_field_decides_witness:
  "matchQueryName gc [''1'', ''Paris'']
       \<lparr>name = ''paris'', latitude = '''', longitude = ''''\<rparr> = Inr (True, Finite 1)
   \<and> matchQueryName gc [''1'', ''Paname'', ''Paris'']
       \<lparr>name = ''paris'', latitude = '''', longitude = ''''\<rparr> = Inr (True, Finite 1)
   \<and> matchQueryName gc
       [''1'', ''Sprfld'', ''Sprfld'', ''Springfield,Springfield Town,New Springfield'']
       \<lparr>name = ''field'', latitude = '''', longitude = ''''\<rparr> = Inr (True, Finite (5 / 11))"
proof -
  let ?q = "\<lparr>name = ''paris'', latitude = '''', longitude = ''''\<rparr>"
  let ?f = "\<lparr>name = ''field'', latitude = '''', longitude = ''''\<rparr>"
  let ?r3 = "[''1'', ''Sprfld'', ''Sprfld'', ''Springfield,Springfield Town,New Springfield'']"
  have w1: "computeMatchingCharWeight ''paris'' ''Paris'' = Finite 1"
    by (simp add: computeMatchingCharWeight_def RuneCount_ASCII isASCII_def byte_def
        float64_of_int_def)
  have w3: "computeMatchingCharWeight ''field'' ''Springfield'' = Finite (5 / 11)"
    by (simp add: computeMatchingCharWeight_def RuneCount_ASCII isASCII_def byte_def
        float64_of_int_def)
  have "matchQueryName gc [''1'', ''Paris''] ?q = Inr (True, Finite 1)"
    using first_matching_field_decides [of gc "[''1'', ''Paris'']" ?q,
        THEN conjunct1]
    by (simp add: fetchCityNameOf_def eval_index eval_string score_without_hints w1)
  moreover have "matchQueryName gc [''1'', ''Paname'', ''Paris''] ?q = Inr (True, Finite 1)"
    using first_matching_field_decides [of gc "[''1'', ''Paname'', ''Paris'']" ?q,
        THEN conjunct2, THEN conjunct1]
    by (simp add: fetchCityNameOf_def eval_index eval_string score_without_hints w1)
  moreover have "matchQueryName gc ?r3 ?f = Inr (True, Finite (5 / 11))"
    using first_matching_field_decides [of gc ?r3 ?f, THEN conjunct2, THEN conjunct2]
    by (simp add: fetchCityNameOf_def eval_index eval_string score_without_hints w3 Springfield_word)
  ultimately show ?thesis by simp
qed

subsection \<open>Letter case\<close>



subsection \<open>Record coordinates that are absent or do not parse\<close>






subsection \<open>The ranking\<close>

text \<open>The insertion sort on a comparison of scores: it permutes the slice, it keeps the
  elements of one score in their order, and it sorts when no score is NaN.\<close>

lemma f64_gt_irrefl: "\<not> f64_gt x x"
  by (cases x) simp_all

lemma f64_gt_imp_ge: "f64_gt x y \<Longrightarrow> f64_ge x y"
  by (simp add: f64_ge_def)

lemma f64_not_gt_imp_ge: "x \<noteq> NaN \<Longrightarrow> y \<noteq> NaN \<Longrightarrow> \<not> f64_gt x y \<Longrightarrow> f64_ge y x"
  by (cases x; cases y) (auto simp add: f64_ge_def)

lemma f64_ge_trans: "f64_ge x y \<Longrightarrow> f64_ge y z \<Longrightarrow> f64_ge x z"
  by (cases x; cases y; cases z) (auto simp add: f64_ge_def)

lemma set_insertBack: "set (insertBack lessFn x p) = insert x (set p)"
  by (induction p) auto

lemma mset_insertBack: "mset (insertBack lessFn x p) = add_mset x (mset p)"
  by (induction p) auto

lemma filter_insertBack:
  assumes "\<And>y. lessFn x y \<Longrightarrow> k y \<noteq> k x"
  shows "filter (\<lambda>m. k m = v) (insertBack lessFn x p)
    = (if k x = v then x # filter (\<lambda>m. k m = v) p else filter (\<lambda>m. k m = v) p)"
proof (induction p)
  case Nil
  then show ?case by simp
next
  case (Cons y p)
  show ?case
  proof (cases "lessFn x y")
    case True
    then have "k y \<noteq> k x" by (rule assms)
    then show ?thesis using True Cons.IH by auto
  next
    case False
    then show ?thesis by simp
  qed
qed

lemma sorted_insertBack:
  assumes "sorted_wrt (\<lambda>a b. f64_ge (k b) (k a)) p" and "k x \<noteq> NaN"
    and "\<forall>y \<in> set p. k y \<noteq> NaN"
  shows "sorted_wrt (\<lambda>a b. f64_ge (k b) (k a)) (insertBack (\<lambda>a b. f64_gt (k a) (k b)) x p)"
  using assms
proof (induction p)
  case Nil
  then show ?case by simp
next
  case (Cons y p)
  show ?case
  proof (cases "f64_gt (k x) (k y)")
    case True
    then show ?thesis
      using Cons by (auto simp add: set_insertBack f64_gt_imp_ge)
  next
    case False
    then have "f64_ge (k y) (k x)"
      using Cons.prems by (simp add: f64_not_gt_imp_ge)
    then show ?thesis
      using Cons.prems False by (auto intro: f64_ge_trans)
  qed
qed

lemma foldl_insertBack:
  fixes k :: "'a \<Rightarrow> float64"
  defines "lt \<equiv> (\<lambda>a b. f64_gt (k a) (k b))"
  shows "mset (foldl (\<lambda>p x. insertBack lt x p) p xs) = mset xs + mset p"
    and "filter (\<lambda>m. k m = v) (foldl (\<lambda>p x. insertBack lt x p) p xs)
      = rev (filter (\<lambda>m. k m = v) xs) @ filter (\<lambda>m. k m = v) p"
proof -
  have irr: "\<And>x y. lt x y \<Longrightarrow> k y \<noteq> k x"
    unfolding lt_def using f64_gt_irrefl by metis
  show "mset (foldl (\<lambda>p x. insertBack lt x p) p xs) = mset xs + mset p"
    by (induction xs arbitrary: p) (simp_all add: mset_insertBack)
  show "filter (\<lambda>m. k m = v) (foldl (\<lambda>p x. insertBack lt x p) p xs)
      = rev (filter (\<lambda>m. k m = v) xs) @ filter (\<lambda>m. k m = v) p"
    by (induction xs arbitrary: p) (simp_all add: filter_insertBack [of lt _ k, OF irr])
qed

lemma sorted_foldl_insertBack:
  assumes "sorted_wrt (\<lambda>a b. f64_ge (k b) (k a)) p"
    and "\<forall>y \<in> set p. k y \<noteq> NaN" and "\<forall>y \<in> set xs. k y \<noteq> NaN"
  shows "sorted_wrt (\<lambda>a b. f64_ge (k b) (k a))
    (foldl (\<lambda>p x. insertBack (\<lambda>a b. f64_gt (k a) (k b)) x p) p xs)"
  using assms
proof (induction xs arbitrary: p)
  case Nil
  then show ?case by simp
next
  case (Cons x xs)
  have "sorted_wrt (\<lambda>a b. f64_ge (k b) (k a)) (insertBack (\<lambda>a b. f64_gt (k a) (k b)) x p)"
    using Cons.prems by (intro sorted_insertBack) simp_all
  moreover have "\<forall>y \<in> set (insertBack (\<lambda>a b. f64_gt (k a) (k b)) x p). k y \<noteq> NaN"
    using Cons.prems by (simp add: set_insertBack)
  ultimately show ?case
    using Cons.prems Cons.IH by simp
qed

lemma SliceStable_stable:
  "mset (SliceStable (\<lambda>a b. f64_gt (k a) (k b)) xs) = mset xs"
  "filter (\<lambda>m. k m = v) (SliceStable (\<lambda>a b. f64_gt (k a) (k b)) xs) = filter (\<lambda>m. k m = v) xs"
  by (simp_all add: SliceStable_def foldl_insertBack rev_filter [symmetric])

lemma SliceStable_sorted:
  assumes "\<forall>y \<in> set xs. k y \<noteq> NaN"
  shows "sorted_wrt (\<lambda>a b. f64_ge (k a) (k b)) (SliceStable (\<lambda>a b. f64_gt (k a) (k b)) xs)"
  using sorted_foldl_insertBack [of k "[]" xs] assms
  by (simp add: SliceStable_def sorted_wrt_rev)

lemma short_row_match:
  assumes "Contains (ToLower L nm) q"
  shows "matchQueryName L [i, nm] \<lparr>name = q, latitude = '''', longitude = ''''\<rparr>
    = Inr (True, to_float32 (computeMatchingCharWeight q nm))"
  using assms
  by (simp add: matchQueryName_def fetchCityNameOf_def eval_index score_without_hints)

lemma short_row_makeMatch:
  "makeMatch L [i, nm] s
    = \<lparr>Name = nm @ '', -, -'', Latitude = 0, Longitude = 0, Score = s\<rparr>"
  by (simp add: makeMatch_def Sprintf3_def fetchCityNameOf_def fetchCountryNameOf_def
      fetchFirstAdministrationLevelOf_def fetchLatitude_def fetchLongitude_def eval_index)

text \<open>
  Claim C3, amended. When \<^verbatim>\<open>FindRankedSuggestionsFor\<close> returns and no suggestion has the
  score NaN, the returned list is sorted by score in descending order; it is a
  permutation of the list that \<^verbatim>\<open>findSuggestionsFor\<close> built, and for every score the
  suggestions of that score stand in the order they have in that list, which is the
  order of their records in the store. Nothing but the score is compared.
\<close>

theorem ranked_suggestions_sorted_and_stable:
  assumes "FindRankedSuggestionsFor L repository query = Inr ranked"
    and "\<forall>m \<in> set (Suggestions ranked). Score m \<noteq> NaN"
  shows "sorted_wrt (\<lambda>a b. f64_ge (Score a) (Score b)) (Suggestions ranked)
    \<and> (\<exists>found. findSuggestionsFor L repository query = Inr found
         \<and> mset (Suggestions ranked) = mset (Suggestions found)
         \<and> (\<forall>v. filter (\<lambda>m. Score m = v) (Suggestions ranked)
                = filter (\<lambda>m. Score m = v) (Suggestions found))
         \<and> Suggestions found
             = (if name query = [] then []
                else map (\<lambda>r. makeMatch L r (snd (projr
                            (matchQueryName L r (query\<lparr>name := ToLower L (name query)\<rparr>)))))
                       (filter (\<lambda>r. fst (projr
                            (matchQueryName L r (query\<lparr>name := ToLower L (name query)\<rparr>))))
                          (records repository))))"
proof -
  obtain found where f: "findSuggestionsFor L repository query = Inr found"
    and r: "ranked = found\<lparr>Suggestions :=
        SliceStable (\<lambda>a b. f64_gt (Score a) (Score b)) (Suggestions found)\<rparr>"
    using assms(1) by (auto simp add: FindRankedSuggestionsFor_def split: sum.splits)
  have s: "Suggestions ranked
      = SliceStable (\<lambda>a b. f64_gt (Score a) (Score b)) (Suggestions found)"
    by (simp add: r)
  have m: "mset (Suggestions ranked) = mset (Suggestions found)"
    unfolding s by (rule SliceStable_stable)
  then have "set (Suggestions ranked) = set (Suggestions found)"
    by (rule mset_eq_setD)
  then have "\<forall>m \<in> set (Suggestions found). Score m \<noteq> NaN"
    using assms(2) by simp
  then have sorted: "sorted_wrt (\<lambda>a b. f64_ge (Score a) (Score b)) (Suggestions ranked)"
    unfolding s by (rule SliceStable_sorted)
  have stable: "filter (\<lambda>m. Score m = v) (Suggestions ranked)
      = filter (\<lambda>m. Score m = v) (Suggestions found)" for v
    unfolding s by (rule SliceStable_stable)
  have order: "Suggestions found
      = (if name query = [] then []
         else map (\<lambda>r. makeMatch L r (snd (projr
                     (matchQueryName L r (query\<lparr>name := ToLower L (name query)\<rparr>)))))
                (filter (\<lambda>r. fst (projr
                     (matchQueryName L r (query\<lparr>name := ToLower L (name query)\<rparr>))))
                   (records repository)))"
  proof (cases "name query = []")
    case True
    then show ?thesis using f by (auto simp add: findSuggestionsFor_def)
  next
    case False
    then obtain ms where ms: "scanRecords L (query\<lparr>name := ToLower L (name query)\<rparr>)
        (records repository) [] = Inr ms" "found = \<lparr>Suggestions = ms\<rparr>"
      using f by (auto simp add: findSuggestionsFor_def split: sum.splits)
    show ?thesis
      using False scanRecords_Inr [OF ms(1)] by (simp add: ms(2))
  qed
  from f m sorted stable order show ?thesis by blast
qed

theorem ranked_suggestions_sorted_and_stable_witness:
  "FindRankedSuggestionsFor gc
      \<lparr>records = [[''1'', ''ab''], [''2'', ''a''], [''3'', ''xab''], [''4'', ''A'']]\<rparr>
      \<lparr>name = ''a'', latitude = '''', longitude = ''''\<rparr>
    = Inr \<lparr>Suggestions =
        [\<lparr>Name = ''a, -, -'', Latitude = 0, Longitude = 0, Score = Finite 1\<rparr>,
         \<lparr>Name = ''A, -, -'', Latitude = 0, Longitude = 0, Score = Finite 1\<rparr>,
         \<lparr>Name = ''ab, -, -'', Latitude = 0, Longitude = 0, Score = Finite (1 / 2)\<rparr>,
         \<lparr>Name = ''xab, -, -'', Latitude = 0, Longitude = 0, Score = Finite (1 / 3)\<rparr>]\<rparr>
   \<and> sorted_wrt (\<lambda>a b. f64_ge (Score a) (Score b))
        [\<lparr>Name = ''a, -, -'', Latitude = 0, Longitude = 0, Score = Finite 1\<rparr>,
         \<lparr>Name = ''A, -, -'', Latitude = 0, Longitude = 0, Score = Finite 1\<rparr>,
         \<lparr>Name = ''ab, -, -'', Latitude = 0, Longitude = 0, Score = Finite (1 / 2)\<rparr>,
         \<lparr>Name = ''xab, -, -'', Latitude = 0, Longitude = 0, Score = Finite (1 / 3)\<rparr>]"
proof -
  let ?q = "\<lparr>name = ''a'', latitude = '''', longitude = ''''\<rparr>"
  have lq: "?q\<lparr>name := ToLower gc (name ?q)\<rparr> = ?q"
    by (simp add: eval_string)
  have w: "computeMatchingCharWeight ''a'' ''ab'' = Finite (1 / 2)"
    "computeMatchingCharWeight ''a'' ''a'' = Finite 1"
    "computeMatchingCharWeight ''a'' ''xab'' = Finite (1 / 3)"
    "computeMatchingCharWeight ''a'' ''A'' = Finite 1"
    by (simp_all add: computeMatchingCharWeight_def RuneCount_ASCII isASCII_def byte_def
        float64_of_int_def)
  have m: "matchQueryName gc [''1'', ''ab''] ?q = Inr (True, Finite (1 / 2))"
    "matchQueryName gc [''2'', ''a''] ?q = Inr (True, Finite 1)"
    "matchQueryName gc [''3'', ''xab''] ?q = Inr (True, Finite (1 / 3))"
    "matchQueryName gc [''4'', ''A''] ?q = Inr (True, Finite 1)"
    by (simp_all add: short_row_match eval_string w)
  have found: "findSuggestionsFor gc
      \<lparr>records = [[''1'', ''ab''], [''2'', ''a''], [''3'', ''xab''], [''4'', ''A'']]\<rparr> ?q
    = Inr \<lparr>Suggestions =
        [\<lparr>Name = ''ab, -, -'', Latitude = 0, Longitude = 0, Score = Finite (1 / 2)\<rparr>,
         \<lparr>Name = ''a, -, -'', Latitude = 0, Longitude = 0, Score = Finite 1\<rparr>,
         \<lparr>Name = ''xab, -, -'', Latitude = 0, Longitude = 0, Score = Finite (1 / 3)\<rparr>,
         \<lparr>Name = ''A, -, -'', Latitude = 0, Longitude = 0, Score = Finite 1\<rparr>]\<rparr>"
    unfolding findSuggestionsFor_def lq
    by (simp add: m short_row_makeMatch)
  have ranked: "FindRankedSuggestionsFor gc
      \<lparr>records = [[''1'', ''ab''], [''2'', ''a''], [''3'', ''xab''], [''4'', ''A'']]\<rparr> ?q
    = Inr \<lparr>Suggestions =
        [\<lparr>Name = ''a, -, -'', Latitude = 0, Longitude = 0, Score = Finite 1\<rparr>,
         \<lparr>Name = ''A, -, -'', Latitude = 0, Longitude = 0, Score = Finite 1\<rparr>,
         \<lparr>Name = ''ab, -, -'', Latitude = 0, Longitude = 0, Score = Finite (1 / 2)\<rparr>,
         \<lparr>Name = ''xab, -, -'', Latitude = 0, Longitude = 0, Score = Finite (1 / 3)\<rparr>]\<rparr>"
    unfolding FindRankedSuggestionsFor_def found
    by (simp add: SliceStable_def)
  from ranked_suggestions_sorted_and_stable [OF ranked, THEN conjunct1] ranked
  show ?thesis by simp
qed

text \<open>
  As the claim states it, for every query, the list would be sorted also when a score is
  NaN. The comparison \<^verbatim>\<open>Score[i] > Score[j]\<close> is false on both sides of a NaN, which
  stops the insertion: a record whose latitude field is \<^verbatim>\<open>NaN\<close> gets the score NaN as
  soon as the query gives a latitude, and the suggestion of score \<open>1 / 2\<close> before it
  stays in front of the suggestion of score 1 behind it.
\<close>

theorem ranked_suggestions_with_NaN_score:
  "FindRankedSuggestionsFor gc
      \<lparr>records = [[''1'', ''ab'', ''ab'', '''', ''0'', ''0''],
                   [''2'', ''a'', ''a'', '''', ''NaN'', ''0''],
                   [''3'', ''a'', ''a'', '''', ''0'', ''0'']]\<rparr>
      \<lparr>name = ''a'', latitude = ''0'', longitude = ''''\<rparr>
    = Inr \<lparr>Suggestions =
        [\<lparr>Name = ''ab, -, -'', Latitude = Finite 0, Longitude = Finite 0,
          Score = Finite (1 / 2)\<rparr>,
         \<lparr>Name = ''a, -, -'', Latitude = NaN, Longitude = Finite 0, Score = NaN\<rparr>,
         \<lparr>Name = ''a, -, -'', Latitude = Finite 0, Longitude = Finite 0, Score = Finite 1\<rparr>]\<rparr>
   \<and> f64_gt (Finite 1) (Finite (1 / 2))
   \<and> \<not> sorted_wrt f64_ge [Finite (1 / 2), NaN, Finite 1]"
proof -
  let ?q = "\<lparr>name = ''a'', latitude = ''0'', longitude = ''''\<rparr>"
  let ?r1 = "[''1'', ''ab'', ''ab'', '''', ''0'', ''0'']"
  let ?r2 = "[''2'', ''a'', ''a'', '''', ''NaN'', ''0'']"
  let ?r3 = "[''3'', ''a'', ''a'', '''', ''0'', ''0'']"
  have lq: "?q\<lparr>name := ToLower gc (name ?q)\<rparr> = ?q"
    by (simp add: eval_string)
  have w: "computeMatchingCharWeight ''a'' ''ab'' = Finite (1 / 2)"
    "computeMatchingCharWeight ''a'' ''a'' = Finite 1"
    by (simp_all add: computeMatchingCharWeight_def RuneCount_ASCII isASCII_def byte_def
        float64_of_int_def)
  have lon: "computeLongitudeScoreWeight gc ?q r = Finite 1" for r
    by (simp add: computeLongitudeScoreWeight_def ParseFloat_empty one_float64_def)
  have lat: "computeLatitudeScoreWeight gc ?q ?r1 = Finite 1"
    "computeLatitudeScoreWeight gc ?q ?r2 = NaN"
    "computeLatitudeScoreWeight gc ?q ?r3 = Finite 1"
    by (simp_all add: computeLatitudeScoreWeight_def ParseFloat_0 ParseFloat_NaN
        fetchLatitude_def eval_index latitudeMaximumRange_def one_float64_def)
  have m: "matchQueryName gc ?r1 ?q = Inr (True, Finite (1 / 2))"
    "matchQueryName gc ?r2 ?q = Inr (True, NaN)"
    "matchQueryName gc ?r3 ?q = Inr (True, Finite 1)"
    by (simp_all add: matchQueryName_def fetchCityNameOf_def eval_index eval_string
        computeScoreFor_def w lat lon)
  have mk: "makeMatch gc ?r1 s = \<lparr>Name = ''ab, -, -'', Latitude = Finite 0,
        Longitude = Finite 0, Score = s\<rparr>"
    "makeMatch gc ?r2 s = \<lparr>Name = ''a, -, -'', Latitude = NaN,
        Longitude = Finite 0, Score = s\<rparr>"
    "makeMatch gc ?r3 s = \<lparr>Name = ''a, -, -'', Latitude = Finite 0,
        Longitude = Finite 0, Score = s\<rparr>" for s
    by (simp_all add: makeMatch_def Sprintf3_def fetchCityNameOf_def fetchCountryNameOf_def
        fetchFirstAdministrationLevelOf_def fetchLatitude_def fetchLongitude_def eval_index
        ParseFloat_0 ParseFloat_NaN)
  have found: "findSuggestionsFor gc \<lparr>records = [?r1, ?r2, ?r3]\<rparr> ?q
    = Inr \<lparr>Suggestions = [makeMatch gc ?r1 (Finite (1 / 2)), makeMatch gc ?r2 NaN,
        makeMatch gc ?r3 (Finite 1)]\<rparr>"
    unfolding findSuggestionsFor_def lq by (simp add: m)
  show ?thesis
    unfolding FindRankedSuggestionsFor_def found
    by (simp add: SliceStable_def mk f64_ge_def)
qed

end
